theory Spec2Isabelle
  imports Main "HOL-Library.Sublist" "HOL-Library.Multiset"
begin

section \<open>The runtime the script runs on\<close>

text \<open>
  vomitorium is a Node.js script. Everything it calls that is not its own code is
  a parameter of the model: the functions of \<^verbatim>\<open>node:path\<close>, \<^verbatim>\<open>process.cwd()\<close>, and the
  outcome of the two calls that write the output file. A JavaScript error is
  \<open>Error message\<close>; an \<open>async\<close> function returns the events it caused together
  with its rejection, \<open>None\<close> when the promise resolves.
\<close>

datatype js_error = Error (message: string)

datatype js_value = Str string | Err js_error

record runtime =
  cwd :: string
  relative :: "string \<Rightarrow> string \<Rightarrow> string"
  basename :: "string \<Rightarrow> string"
  extname :: "string \<Rightarrow> string"
  join :: "string \<Rightarrow> string \<Rightarrow> string"
  resolve :: "string \<Rightarrow> string"
  appendFile :: "string \<Rightarrow> string \<Rightarrow> js_error option"
  writeFile :: "string \<Rightarrow> string \<Rightarrow> js_error option"

text \<open>
  \<open>appendFile R path text\<close> and \<open>writeFile R path text\<close> are \<open>None\<close> when the call
  succeeds and \<open>Some error\<close> when it rejects; a rejected call leaves the file as it
  was.
\<close>

text \<open>
  The script appends two kinds of text to the output file, one per template
  literal: the content block of \<^verbatim>\<open>appendFileToOutput\<close> and the skip record of
  \<^verbatim>\<open>logSkippedFile\<close>. \<open>render\<close> is the text of the template literal.
\<close>

datatype block =
    FileBlock string string
  | SkipBlock string string

fun render :: "block \<Rightarrow> string" where
  "render (FileBlock relativePath fileContent) =
     [CHR 0x0A, CHR 0x0A] @ ''--- File: '' @ relativePath @ '' ---'' @ [CHR 0x0A, CHR 0x0A]
       @ fileContent @ [CHR 0x0A]"
| "render (SkipBlock relativePath reason) =
     [CHR 0x0A, CHR 0x0A] @ ''--- File: '' @ relativePath @ '' ---'' @ [CHR 0x0A]
       @ ''('' @ reason @ '')'' @ [CHR 0x0A]"

datatype event =
    Access string
  | WriteFile string string
  | Readdir string
  | ReadFile string
  | AppendFile string block
  | ConsoleLog string
  | ConsoleError "js_value list"

text \<open>
  The events are the calls the script makes, in the order of a run that handles
  the entries of a directory one after the other. \<open>WriteFile path text\<close> and
  \<open>AppendFile path block\<close> are recorded when the call succeeded (the text appended
  is \<open>render block\<close>), \<open>Access\<close>, \<open>Readdir\<close> and \<open>ReadFile\<close> when the call was made.
\<close>

type_synonym 'a promise = "event list \<times> js_error option"

section \<open>The scanned tree\<close>

text \<open>
  A node is what \<^verbatim>\<open>fs.readdir(..., {withFileTypes: true})\<close> lists: a name and a kind.
  \<open>File\<close> is every entry whose \<^verbatim>\<open>isDirectory()\<close> is false, with the result of
  \<^verbatim>\<open>fs.readFile(path, "utf8")\<close> on it; \<open>Directory\<close> carries the result of \<^verbatim>\<open>fs.readdir\<close>.
  \<open>Inl\<close> is the error the call rejects with.
\<close>

datatype fsnode =
    File (name: string) "js_error + string"
  | Directory (name: string) "js_error + fsnode list"

fun isDirectory :: "fsnode \<Rightarrow> bool" where
  "isDirectory (File n r) = False"
| "isDirectory (Directory n r) = True"

fun fs_readFile :: "fsnode \<Rightarrow> js_error + string" where
  "fs_readFile (File n r) = r"
| "fs_readFile (Directory n r) = Inl (Error ''EISDIR: illegal operation on a directory, read'')"

fun fs_readdir :: "fsnode \<Rightarrow> js_error + fsnode list" where
  "fs_readdir (Directory n r) = r"
| "fs_readdir (File n r) = Inl (Error ''ENOTDIR: not a directory, scandir'')"

section \<open>The resolved settings\<close>

text \<open>
  The module-level constants of the script after the command line and the
  configuration file have been merged (\<^verbatim>\<open>inputDirectory\<close> is \<^verbatim>\<open>scanDirectory\<close> in the
  second version).
\<close>

record settings =
  inputDirectory :: string
  includeDirectories :: "string list"
  excludePatterns :: "string list"
  includeExtensions :: "string list"
  showExcluded :: bool
  showSkipped :: bool
  outputFile :: string

section \<open>Strings\<close>

text \<open>\<^verbatim>\<open>String.prototype.includes\<close>: \<open>str_includes s p\<close> is \<^verbatim>\<open>s.includes(p)\<close>.\<close>

primrec str_includes :: "string \<Rightarrow> string \<Rightarrow> bool" where
  "str_includes [] p = (p = [])"
| "str_includes (c # cs) p = (prefix p (c # cs) \<or> str_includes cs p)"

section \<open>The functions of the script\<close>

definition isExcluded :: "runtime \<Rightarrow> settings \<Rightarrow> string \<Rightarrow> bool" where
  "isExcluded R S filePath =
     (let relativeFilePath = relative R (cwd R) filePath
      in list_ex (\<lambda>excludePattern.
            str_includes relativeFilePath excludePattern \<or> basename R filePath = excludePattern)
           (excludePatterns S))"

definition logSkippedFile :: "runtime \<Rightarrow> string \<Rightarrow> string \<Rightarrow> string \<Rightarrow> unit promise" where
  "logSkippedFile R filePath outputFilePath reason =
     (let relativePath = relative R (cwd R) filePath;
          block = SkipBlock relativePath reason
      in case appendFile R outputFilePath (render block) of
           Some error \<Rightarrow> ([], Some error)
         | None \<Rightarrow>
             ([AppendFile outputFilePath block,
               ConsoleLog (''Skipped file: '' @ relativePath @ '' ('' @ reason @ '')'')], None))"

definition appendFileToOutput :: "runtime \<Rightarrow> string \<Rightarrow> fsnode \<Rightarrow> string \<Rightarrow> unit promise" where
  "appendFileToOutput R sourceFilePath node outputFilePath =
     (case fs_readFile node of
        Inl error \<Rightarrow>
          ([ReadFile sourceFilePath],
           Some (Error (''Error appending file '' @ sourceFilePath @ '': '' @ message error)))
      | Inr fileContent \<Rightarrow>
          (let relativePath = relative R (cwd R) sourceFilePath;
               block = FileBlock relativePath fileContent
           in case appendFile R outputFilePath (render block) of
                Some error \<Rightarrow>
                  ([ReadFile sourceFilePath],
                   Some (Error (''Error appending file '' @ sourceFilePath @ '': '' @ message error)))
              | None \<Rightarrow> ([ReadFile sourceFilePath, AppendFile outputFilePath block], None)))"

text \<open>
  \<^verbatim>\<open>Promise.all\<close> over the callbacks of one directory: every callback runs to its
  end whatever the others do, and the result rejects with a rejection of one of
  them (here the first in the order of the entries) when there is one.
\<close>

fun first_rejection :: "js_error option list \<Rightarrow> js_error option" where
  "first_rejection [] = None"
| "first_rejection (None # rs) = first_rejection rs"
| "first_rejection (Some error # rs) = Some error"

definition promise_all :: "unit promise list \<Rightarrow> unit promise" where
  "promise_all ps = (concat (map fst ps), first_rejection (map snd ps))"

text \<open>
  The traversal and the callback it maps over the entries of a directory. The
  callback of an entry named \<open>name entry\<close> in the directory at \<open>directoryPath\<close>
  works on the path \<^verbatim>\<open>path.join(directoryPath, entry.name)\<close>, and the file system
  answers for that path with the node \<open>entry\<close> itself. The \<^verbatim>\<open>try\<close>/\<^verbatim>\<open>catch\<close> around
  the body turns a failed \<^verbatim>\<open>readdir\<close> and a rejection of \<^verbatim>\<open>Promise.all\<close> into one
  line on the error stream. The callbacks of one directory run concurrently:
  the lists below give their events entry after entry, and the properties that
  depend on the order are stated for every reordering.
\<close>

fun traverseDirectoryRecursively ::
      "runtime \<Rightarrow> settings \<Rightarrow> string \<Rightarrow> fsnode \<Rightarrow> string \<Rightarrow> unit promise"
  and entryCallback ::
      "runtime \<Rightarrow> settings \<Rightarrow> string \<Rightarrow> string \<Rightarrow> fsnode \<Rightarrow> unit promise"
where
  "traverseDirectoryRecursively R S directoryPath (File n r) outputFilePath =
     ([Readdir directoryPath,
       ConsoleError [Str (''Error traversing directory '' @ directoryPath @ '':''),
                     Err (Error ''ENOTDIR: not a directory, scandir'')]], None)"
| "traverseDirectoryRecursively R S directoryPath (Directory n (Inl error)) outputFilePath =
     ([Readdir directoryPath,
       ConsoleError [Str (''Error traversing directory '' @ directoryPath @ '':''), Err error]],
      None)"
| "traverseDirectoryRecursively R S directoryPath (Directory n (Inr directoryEntries))
       outputFilePath =
     (case promise_all
             (map (\<lambda>entry. entryCallback R S directoryPath outputFilePath entry)
                directoryEntries) of
        (events, None) \<Rightarrow> (Readdir directoryPath # events, None)
      | (events, Some error) \<Rightarrow>
          (Readdir directoryPath # events @
             [ConsoleError [Str (''Error traversing directory '' @ directoryPath @ '':''),
                            Err error]],
           None))"
| "entryCallback R S directoryPath outputFilePath entry =
     (let entryPath = join R directoryPath (name entry)
      in if isExcluded R S entryPath then
           (if showExcluded S then logSkippedFile R entryPath outputFilePath ''Excluded''
            else ([], None))
         else if isDirectory entry then
           (if includeDirectories S = [] \<or>
               list_ex (\<lambda>includeDirectory. str_includes entryPath includeDirectory)
                 (includeDirectories S)
            then traverseDirectoryRecursively R S entryPath entry outputFilePath
            else ([], None))
         else
           (let extension = extname R (name entry)
            in if extension \<notin> set (includeExtensions S) then
                 (if showSkipped S
                  then logSkippedFile R entryPath outputFilePath
                         ''Skipped (non-matching extension)''
                  else ([], None))
               else appendFileToOutput R entryPath entry outputFilePath))"

datatype completion = Resolved | Rejected js_error | Exited nat

text \<open>
  \<open>main\<close> of \<^verbatim>\<open>vomitorium.js\<close>. \<open>root\<close> is what the file system has at the scan
  directory: \<open>None\<close> when \<^verbatim>\<open>fs.access\<close> rejects. \<^verbatim>\<open>process.exit(1)\<close> ends the process
  at once: \<open>Exited 1\<close>.
\<close>

definition main :: "runtime \<Rightarrow> settings \<Rightarrow> fsnode option \<Rightarrow> event list \<times> completion" where
  "main R S root =
     (let outputFilePath = join R (cwd R) (outputFile S)
      in case root of
           None \<Rightarrow>
             ([Access (inputDirectory S),
               ConsoleError [Str (''Error: Directory '' @ [CHR 0x22] @ inputDirectory S @ [CHR 0x22] @
                                  '' does not exist or is inaccessible.'')]],
              Exited 1)
         | Some node \<Rightarrow>
             (case writeFile R outputFilePath [] of
                Some error \<Rightarrow> ([Access (inputDirectory S)], Rejected error)
              | None \<Rightarrow>
                  (case traverseDirectoryRecursively R S (inputDirectory S) node outputFilePath of
                     (events, Some error) \<Rightarrow>
                       ([Access (inputDirectory S), WriteFile outputFilePath [],
                         ConsoleLog (''Traversing directory: '' @ inputDirectory S)] @ events,
                        Rejected error)
                   | (events, None) \<Rightarrow>
                       ([Access (inputDirectory S), WriteFile outputFilePath [],
                         ConsoleLog (''Traversing directory: '' @ inputDirectory S)] @ events @
                        [ConsoleLog (''Done. All file contents written to: '' @ outputFilePath)],
                        Resolved))))"

text \<open>
  The top level of \<^verbatim>\<open>vomitorium.js\<close>, with the exit code of the process. Its
  \<^verbatim>\<open>catch\<close> calls \<^verbatim>\<open>console.erro\<close>, which is not a function: the TypeError is
  uncaught and Node exits with code 1.
\<close>

definition run :: "runtime \<Rightarrow> settings \<Rightarrow> fsnode option \<Rightarrow> event list \<times> nat" where
  "run R S root =
     (case main R S root of
        (events, Resolved) \<Rightarrow> (events, 0)
      | (events, Exited code) \<Rightarrow> (events, code)
      | (events, Rejected error) \<Rightarrow> (events, 1))"

text \<open>\<open>main\<close> of the second version, which resolves the scan directory first.\<close>

definition main_part_000 ::
    "runtime \<Rightarrow> settings \<Rightarrow> fsnode option \<Rightarrow> event list \<times> completion" where
  "main_part_000 R S root =
     (let targetDirectory = resolve R (inputDirectory S);
          outputFilePath = join R (cwd R) (outputFile S)
      in case root of
           None \<Rightarrow>
             ([Access targetDirectory,
               ConsoleError [Str (''Error: Directory '' @ [CHR 0x22] @ targetDirectory @ [CHR 0x22] @
                                  '' does not exist or is inaccessible.'')]],
              Exited 1)
         | Some node \<Rightarrow>
             (case writeFile R outputFilePath [] of
                Some error \<Rightarrow> ([Access targetDirectory], Rejected error)
              | None \<Rightarrow>
                  (case traverseDirectoryRecursively R S targetDirectory node outputFilePath of
                     (events, Some error) \<Rightarrow>
                       ([Access targetDirectory, WriteFile outputFilePath [],
                         ConsoleLog (''Traversing directory: '' @ targetDirectory)] @ events,
                        Rejected error)
                   | (events, None) \<Rightarrow>
                       ([Access targetDirectory, WriteFile outputFilePath [],
                         ConsoleLog (''Traversing directory: '' @ targetDirectory)] @ events @
                        [ConsoleLog (''Done. All file contents written to: '' @ outputFilePath)],
                        Resolved))))"

text \<open>
  The top level of the second version, \<^verbatim>\<open>main().catch(console.error)\<close>: a rejection
  is printed and the process ends with code 0.
\<close>

definition run_part_000 :: "runtime \<Rightarrow> settings \<Rightarrow> fsnode option \<Rightarrow> event list \<times> nat" where
  "run_part_000 R S root =
     (case main_part_000 R S root of
        (events, Resolved) \<Rightarrow> (events, 0)
      | (events, Exited code) \<Rightarrow> (events, code)
      | (events, Rejected error) \<Rightarrow> (events @ [ConsoleError [Err error]], 0))"

section \<open>The output file\<close>

text \<open>
  What an event does to the content of the file at \<open>path\<close>, and the content after
  a sequence of events.
\<close>

fun effect :: "string \<Rightarrow> event \<Rightarrow> string \<Rightarrow> string" where
  "effect path (WriteFile p text) content = (if p = path then text else content)"
| "effect path (AppendFile p block) content =
     (if p = path then content @ render block else content)"
| "effect path ev content = content"

definition content_after :: "string \<Rightarrow> event list \<Rightarrow> string \<Rightarrow> string" where
  "content_after path events content = foldl (\<lambda>c ev. effect path ev c) content events"

fun appended :: "event list \<Rightarrow> block list" where
  "appended [] = []"
| "appended (AppendFile p block # evs) = block # appended evs"
| "appended (ev # evs) = appended evs"

text \<open>
  The entries and the files below a node, and the blocks that are content blocks.
\<close>

fun entryCount :: "fsnode \<Rightarrow> nat" where
  "entryCount (File n r) = 0"
| "entryCount (Directory n (Inl error)) = 0"
| "entryCount (Directory n (Inr entries)) =
     sum_list (map (\<lambda>entry. Suc (entryCount entry)) entries)"

fun fileCount :: "fsnode \<Rightarrow> nat" where
  "fileCount (File n r) = 0"
| "fileCount (Directory n (Inl error)) = 0"
| "fileCount (Directory n (Inr entries)) =
     sum_list (map (\<lambda>entry. (if isDirectory entry then 0 else 1) + fileCount entry) entries)"

fun isFileBlock :: "block \<Rightarrow> bool" where
  "isFileBlock (FileBlock relativePath fileContent) = True"
| "isFileBlock (SkipBlock relativePath reason) = False"

section \<open>Resolving the settings\<close>

text \<open>
  \<open>config\<close> is the default configuration merged with the configuration file,
  \<open>options\<close> what \<^verbatim>\<open>program.opts()\<close> returns (\<open>None\<close> for \<^verbatim>\<open>undefined\<close>). The second
  version has one more key, \<^verbatim>\<open>excludeFiles\<close>.
\<close>

record config =
  cfg_scan :: string
  cfg_include :: "string list"
  cfg_exclude :: "string list"
  cfg_extensions :: "string list"
  cfg_showExcluded :: bool
  cfg_showSkipped :: bool
  cfg_outputFile :: string


record options =
  opt_scan :: "string option"
  opt_include :: "string list option"
  opt_exclude :: "string list option"
  opt_extensions :: "string list option"
  opt_showExcluded :: "bool option"
  opt_showSkipped :: "bool option"
  opt_output :: "string option"

definition defaultConfig :: config where
  "defaultConfig =
     \<lparr>cfg_scan = ''.'', cfg_include = [],
      cfg_exclude = [''node_modules'', ''.git'', ''dist'', ''build''],
      cfg_extensions = [''.js'', ''.ts'', ''.json''],
      cfg_showExcluded = True, cfg_showSkipped = True, cfg_outputFile = ''output.sick''\<rparr>"


text \<open>\<^verbatim>\<open>a || b\<close>: the empty string and \<^verbatim>\<open>undefined\<close> are falsy, every array is truthy.\<close>

definition or_string :: "string option \<Rightarrow> string \<Rightarrow> string" where
  "or_string a b = (case a of None \<Rightarrow> b | Some s \<Rightarrow> if s = [] then b else s)"

definition or_array :: "string list option \<Rightarrow> string list \<Rightarrow> string list" where
  "or_array a b = (case a of None \<Rightarrow> b | Some xs \<Rightarrow> xs)"

definition or_undefined :: "bool option \<Rightarrow> bool \<Rightarrow> bool" where
  "or_undefined a b = (case a of None \<Rightarrow> b | Some x \<Rightarrow> x)"

definition resolveSettings :: "'a config_scheme \<Rightarrow> options \<Rightarrow> settings" where
  "resolveSettings C opts =
     \<lparr>inputDirectory = or_string (opt_scan opts) (cfg_scan C),
      includeDirectories = or_array (opt_include opts) (cfg_include C),
      excludePatterns = or_array (opt_exclude opts) (cfg_exclude C),
      includeExtensions = or_array (opt_extensions opts) (cfg_extensions C),
      showExcluded = or_undefined (opt_showExcluded opts) (cfg_showExcluded C),
      showSkipped = or_undefined (opt_showSkipped opts) (cfg_showSkipped C),
      outputFile = or_string (opt_output opts) (cfg_outputFile C)\<rparr>"


section \<open>A POSIX runtime\<close>

text \<open>
  The functions of \<^verbatim>\<open>node:path\<close> on POSIX, on the segments of a path, for running
  the script on concrete trees. The working directory is an absolute path.
\<close>

fun splitSlash :: "string \<Rightarrow> string list" where
  "splitSlash [] = [[]]"
| "splitSlash (c # cs) =
     (if c = CHR ''/'' then [] # splitSlash cs
      else (case splitSlash cs of [] \<Rightarrow> [[c]] | s # ss \<Rightarrow> (c # s) # ss))"

fun joinSlash :: "string list \<Rightarrow> string" where
  "joinSlash [] = []"
| "joinSlash [s] = s"
| "joinSlash (s # ss) = s @ ''/'' @ joinSlash ss"

definition normalizeStep :: "bool \<Rightarrow> string list \<Rightarrow> string \<Rightarrow> string list" where
  "normalizeStep allowAboveRoot res seg =
     (if seg = [] \<or> seg = ''.'' then res
      else if seg = ''..'' then
        (if res \<noteq> [] \<and> last res \<noteq> ''..'' then butlast res
         else if allowAboveRoot then res @ [''..''] else res)
      else res @ [seg])"

definition normalizeString :: "string \<Rightarrow> bool \<Rightarrow> string list" where
  "normalizeString path allowAboveRoot =
     foldl (normalizeStep allowAboveRoot) [] (splitSlash path)"

definition isAbsolute :: "string \<Rightarrow> bool" where
  "isAbsolute path = (case path of [] \<Rightarrow> False | c # cs \<Rightarrow> c = CHR ''/'')"

definition posix_normalize :: "string \<Rightarrow> string" where
  "posix_normalize path =
     (if path = [] then ''.''
      else
        (let trailingSeparator = (last path = CHR ''/'');
             segs = normalizeString path (\<not> isAbsolute path)
         in if segs = [] then
              (if isAbsolute path then ''/'' else if trailingSeparator then ''./'' else ''.'')
            else (if isAbsolute path then ''/'' else []) @ joinSlash segs @
                 (if trailingSeparator then ''/'' else [])))"

definition posix_join :: "string \<Rightarrow> string \<Rightarrow> string" where
  "posix_join a b =
     (let joined = (if a = [] then b else if b = [] then a else a @ ''/'' @ b)
      in if joined = [] then ''.'' else posix_normalize joined)"

definition posix_resolve :: "string \<Rightarrow> string \<Rightarrow> string" where
  "posix_resolve wd path =
     ''/'' @ joinSlash (normalizeString (if isAbsolute path then path else wd @ ''/'' @ path) False)"

fun dropCommon :: "string list \<Rightarrow> string list \<Rightarrow> string list \<times> string list" where
  "dropCommon (x # xs) (y # ys) = (if x = y then dropCommon xs ys else (x # xs, y # ys))"
| "dropCommon xs ys = (xs, ys)"

definition posix_relative :: "string \<Rightarrow> string \<Rightarrow> string \<Rightarrow> string" where
  "posix_relative wd from to =
     (case dropCommon (normalizeString (posix_resolve wd from) False)
                      (normalizeString (posix_resolve wd to) False) of
        (up, down) \<Rightarrow> joinSlash (replicate (length up) ''..'' @ down))"

definition posix_basename :: "string \<Rightarrow> string" where
  "posix_basename path =
     (case rev (filter (\<lambda>s. s \<noteq> []) (splitSlash path)) of [] \<Rightarrow> [] | s # ss \<Rightarrow> s)"

fun lastDot :: "string \<Rightarrow> string option" where
  "lastDot [] = None"
| "lastDot (c # cs) =
     (case lastDot cs of
        Some ext \<Rightarrow> Some ext
      | None \<Rightarrow> if c = CHR ''.'' then Some (c # cs) else None)"

definition posix_extname :: "string \<Rightarrow> string" where
  "posix_extname path =
     (let base = posix_basename path
      in case lastDot base of
           None \<Rightarrow> []
         | Some ext \<Rightarrow> if ext = base \<or> base = ''..'' then [] else ext)"

definition posix :: "string \<Rightarrow> runtime" where
  "posix wd =
     \<lparr>cwd = wd, relative = posix_relative wd, basename = posix_basename,
      extname = posix_extname, join = posix_join, resolve = posix_resolve wd,
      appendFile = (\<lambda>path text. None), writeFile = (\<lambda>path text. None)\<rparr>"





text \<open>
  The segments the normaliser keeps, and the segments of a resolved path.
\<close>

definition segment :: "bool \<Rightarrow> string \<Rightarrow> bool" where
  "segment allowAboveRoot x =
     (x \<noteq> [] \<and> x \<noteq> ''.'' \<and> CHR ''/'' \<notin> set x \<and> (allowAboveRoot \<or> x \<noteq> ''..''))"


section \<open>A concrete run\<close>

text \<open>
  The tree of the end-to-end example: \<^verbatim>\<open>./proj\<close> with \<^verbatim>\<open>a.js\<close>, \<^verbatim>\<open>b.txt\<close>, the directory
  \<^verbatim>\<open>node_modules\<close> holding \<^verbatim>\<open>c.js\<close>, and, beyond the example, a directory \<^verbatim>\<open>src\<close>
  holding \<^verbatim>\<open>d.ts\<close> and a directory \<^verbatim>\<open>locked\<close> whose entries cannot be read. The
  script runs in \<^verbatim>\<open>/w\<close> with \<^verbatim>\<open>--scan ./proj\<close> and the default configuration.
\<close>

definition example_runtime :: runtime where
  "example_runtime = posix ''/w''"

definition example_options :: options where
  "example_options =
     \<lparr>opt_scan = Some ''./proj'', opt_include = None, opt_exclude = None,
      opt_extensions = None, opt_showExcluded = None, opt_showSkipped = None,
      opt_output = None\<rparr>"

definition example_settings :: settings where
  "example_settings = resolveSettings defaultConfig example_options"

definition example_tree :: fsnode where
  "example_tree =
     Directory ''proj''
       (Inr [File ''a.js'' (Inr ''x''),
             File ''b.txt'' (Inr ''y''),
             Directory ''node_modules'' (Inr [File ''c.js'' (Inr ''z'')]),
             Directory ''src''
               (Inr [File ''d.ts'' (Inr ''t''),
                     Directory ''locked'' (Inl (Error ''EACCES: permission denied, scandir''))])])"




section \<open>Properties\<close>

declare entryCallback.simps [simp del]

lemma str_includes_iff: "str_includes s p \<longleftrightarrow> (\<exists>u v. s = u @ p @ v)"
proof (induction s)
  case Nil
  then show ?case by auto
next
  case (Cons c cs)
  show ?case
  proof
    assume "str_includes (c # cs) p"
    then consider "prefix p (c # cs)" | "str_includes cs p" by auto
    then show "\<exists>u v. c # cs = u @ p @ v"
    proof cases
      case 1
      then obtain v where "c # cs = p @ v" by (auto simp: prefix_def)
      then have "c # cs = [] @ p @ v" by simp
      then show ?thesis by blast
    next
      case 2
      with Cons.IH obtain u v where "cs = u @ p @ v" by blast
      then have "c # cs = (c # u) @ p @ v" by simp
      then show ?thesis by blast
    qed
  next
    assume "\<exists>u v. c # cs = u @ p @ v"
    then obtain u v where e: "c # cs = u @ p @ v" by blast
    show "str_includes (c # cs) p"
    proof (cases u)
      case Nil
      with e have "prefix p (c # cs)" by (simp add: prefix_def)
      then show ?thesis by simp
    next
      case (Cons a u')
      with e have "cs = u' @ p @ v" by simp
      with Cons.IH have "str_includes cs p" by blast
      then show ?thesis by simp
    qed
  qed
qed

lemma traverse_resolves: "snd (traverseDirectoryRecursively R S d node out) = None"
proof (cases node)
  case (File n r)
  then show ?thesis by simp
next
  case (Directory n r)
  then show ?thesis by (cases r) (simp_all split: prod.splits option.splits)
qed

lemma traverse_Readdir_first:
  "\<exists>rest. fst (traverseDirectoryRecursively R S d node out) = Readdir d # rest"
proof (cases node)
  case (File n r)
  then show ?thesis by simp
next
  case (Directory n r)
  then show ?thesis by (cases r) (simp_all split: prod.splits option.splits)
qed

lemma traverse_listing:
  "\<exists>tail. fst (traverseDirectoryRecursively R S d (Directory n (Inr entries)) out) =
      Readdir d # concat (map (\<lambda>entry. fst (entryCallback R S d out entry)) entries) @ tail
    \<and> (tail = [] \<or> (\<exists>vs. tail = [ConsoleError vs]))"
  by (simp add: promise_all_def comp_def split: option.splits)

lemma logSkippedFile_events:
  "fst (logSkippedFile R p out reason) = [] \<or>
   fst (logSkippedFile R p out reason) =
     [AppendFile out (SkipBlock (relative R (cwd R) p) reason),
      ConsoleLog (''Skipped file: '' @ relative R (cwd R) p @ '' ('' @ reason @ '')'')]"
  by (simp add: logSkippedFile_def Let_def split: option.splits)

lemma logSkippedFile_ok:
  "appendFile R out (render (SkipBlock (relative R (cwd R) p) reason)) = None \<Longrightarrow>
   logSkippedFile R p out reason =
     ([AppendFile out (SkipBlock (relative R (cwd R) p) reason),
       ConsoleLog (''Skipped file: '' @ relative R (cwd R) p @ '' ('' @ reason @ '')'')], None)"
  by (simp add: logSkippedFile_def Let_def)

lemma appendFileToOutput_events:
  "fst (appendFileToOutput R p node out) = [ReadFile p] \<or>
   (\<exists>c. fs_readFile node = Inr c \<and>
     fst (appendFileToOutput R p node out) =
       [ReadFile p, AppendFile out (FileBlock (relative R (cwd R) p) c)])"
  by (simp add: appendFileToOutput_def Let_def split: option.splits sum.splits)

lemma callback_excluded:
  "isExcluded R S (join R d (name entry)) \<Longrightarrow>
   entryCallback R S d out entry =
     (if showExcluded S then logSkippedFile R (join R d (name entry)) out ''Excluded''
      else ([], None))"
  by (simp add: entryCallback.simps Let_def)

lemma callback_directory:
  "\<not> isExcluded R S (join R d (name entry)) \<Longrightarrow> isDirectory entry \<Longrightarrow>
   entryCallback R S d out entry =
     (if includeDirectories S = [] \<or>
         list_ex (str_includes (join R d (name entry))) (includeDirectories S)
      then traverseDirectoryRecursively R S (join R d (name entry)) entry out
      else ([], None))"
  by (simp add: entryCallback.simps Let_def)

lemma callback_file:
  "\<not> isExcluded R S (join R d (name entry)) \<Longrightarrow> \<not> isDirectory entry \<Longrightarrow>
   entryCallback R S d out entry =
     (if extname R (name entry) \<notin> set (includeExtensions S) then
        (if showSkipped S
         then logSkippedFile R (join R d (name entry)) out ''Skipped (non-matching extension)''
         else ([], None))
      else appendFileToOutput R (join R d (name entry)) entry out)"
  by (simp add: entryCallback.simps Let_def)

text \<open>
  C1. \<open>isExcluded\<close> returns true exactly when the path of the entry relative to the
  working directory contains an exclude pattern as a substring, or the base name
  of the entry equals an exclude pattern. It is a function of the runtime, the
  settings and the path, and returns nothing but the boolean.
\<close>
theorem isExcluded_iff:
  "isExcluded R S filePath \<longleftrightarrow>
     (\<exists>pat \<in> set (excludePatterns S).
        (\<exists>u v. relative R (cwd R) filePath = u @ pat @ v) \<or> basename R filePath = pat)"
  by (simp add: isExcluded_def list_ex_iff str_includes_iff)

theorem isExcluded_iff_witness:
  "isExcluded example_runtime example_settings ''proj/node_modules'' \<and>
   \<not> (\<exists>pat \<in> set (excludePatterns example_settings).
        (\<exists>u v. relative example_runtime (cwd example_runtime) ''proj/a.js'' = u @ pat @ v) \<or>
        basename example_runtime ''proj/a.js'' = pat)"
proof -
  have rel: "relative example_runtime (cwd example_runtime) ''proj/node_modules'' =
      ''proj/'' @ ''node_modules'' @ []"
    by code_simp
  have "''node_modules'' \<in> set (excludePatterns example_settings)"
    by code_simp
  with rel have "\<exists>pat \<in> set (excludePatterns example_settings).
      (\<exists>u v. relative example_runtime (cwd example_runtime) ''proj/node_modules'' = u @ pat @ v) \<or>
      basename example_runtime ''proj/node_modules'' = pat"
    by blast
  then have yes: "isExcluded example_runtime example_settings ''proj/node_modules''"
    using isExcluded_iff [of example_runtime example_settings "''proj/node_modules''"] by simp
  have "\<not> isExcluded example_runtime example_settings ''proj/a.js''"
    by code_simp
  then have no: "\<not> (\<exists>pat \<in> set (excludePatterns example_settings).
      (\<exists>u v. relative example_runtime (cwd example_runtime) ''proj/a.js'' = u @ pat @ v) \<or>
      basename example_runtime ''proj/a.js'' = pat)"
    using isExcluded_iff [of example_runtime example_settings "''proj/a.js''"] by simp
  from yes no show ?thesis by blast
qed

text \<open>
  C2. For a directory entry that is not excluded, the callback reads the
  directory (descends) exactly when \<open>includeDirectories\<close> is empty or the path of
  the entry contains one of its members as a substring; then the callback is the
  traversal of the directory. Otherwise it does nothing and resolves, whatever
  \<open>showSkipped\<close> is.
\<close>
theorem directory_descent:
  assumes "entryPath = join R directoryPath (name entry)"
      and "\<not> isExcluded R S entryPath"
      and "isDirectory entry"
  shows "(Readdir entryPath \<in> set (fst (entryCallback R S directoryPath out entry))
            \<longleftrightarrow> includeDirectories S = [] \<or>
                (\<exists>inc \<in> set (includeDirectories S). \<exists>u v. entryPath = u @ inc @ v))
       \<and> (includeDirectories S = [] \<or>
            (\<exists>inc \<in> set (includeDirectories S). \<exists>u v. entryPath = u @ inc @ v)
          \<longrightarrow> entryCallback R S directoryPath out entry =
                traverseDirectoryRecursively R S entryPath entry out)
       \<and> (\<not> (includeDirectories S = [] \<or>
               (\<exists>inc \<in> set (includeDirectories S). \<exists>u v. entryPath = u @ inc @ v))
          \<longrightarrow> (\<forall>b. entryCallback R (S\<lparr>showSkipped := b\<rparr>) directoryPath out entry = ([], None)))"
proof -
  let ?test = "includeDirectories S = [] \<or>
      (\<exists>inc \<in> set (includeDirectories S). \<exists>u v. entryPath = u @ inc @ v)"
  have test: "?test \<longleftrightarrow> includeDirectories S = [] \<or>
      list_ex (str_includes entryPath) (includeDirectories S)"
    by (simp add: list_ex_iff str_includes_iff)
  have cb: "entryCallback R S directoryPath out entry =
      (if ?test then traverseDirectoryRecursively R S entryPath entry out else ([], None))"
    using assms callback_directory [of R S directoryPath entry out] test by simp
  have ex: "\<And>b. isExcluded R (S\<lparr>showSkipped := b\<rparr>) entryPath = isExcluded R S entryPath"
    by (simp add: isExcluded_def)
  have cb': "\<And>b. \<not> ?test \<Longrightarrow> entryCallback R (S\<lparr>showSkipped := b\<rparr>) directoryPath out entry = ([], None)"
  proof -
    fix b assume nt: "\<not> ?test"
    have "\<not> isExcluded R (S\<lparr>showSkipped := b\<rparr>) (join R directoryPath (name entry))"
      using assms ex by simp
    from callback_directory [OF this assms(3), of out] nt test assms(1)
    show "entryCallback R (S\<lparr>showSkipped := b\<rparr>) directoryPath out entry = ([], None)"
      by simp
  qed
  obtain rest where rest: "fst (traverseDirectoryRecursively R S entryPath entry out) =
      Readdir entryPath # rest"
    using traverse_Readdir_first by blast
  have "Readdir entryPath \<in> set (fst (entryCallback R S directoryPath out entry)) \<longleftrightarrow> ?test"
    using cb rest by (cases ?test) simp_all
  moreover have "?test \<longrightarrow> entryCallback R S directoryPath out entry =
      traverseDirectoryRecursively R S entryPath entry out"
    using cb by simp
  moreover have "\<not> ?test \<longrightarrow>
      (\<forall>b. entryCallback R (S\<lparr>showSkipped := b\<rparr>) directoryPath out entry = ([], None))"
    using cb' by blast
  ultimately show ?thesis by blast
qed

theorem directory_descent_witness:
  "Readdir ''proj/src'' \<in> set (fst (entryCallback example_runtime example_settings ''./proj''
       ''/w/output.sick'' (Directory ''src'' (Inr [File ''d.ts'' (Inr ''t'')])))) \<and>
   entryCallback example_runtime
       (example_settings\<lparr>includeDirectories := [''lib''], showSkipped := True\<rparr>) ''./proj''
       ''/w/output.sick'' (Directory ''src'' (Inr [File ''d.ts'' (Inr ''t'')])) = ([], None)"
proof -
  let ?entry = "Directory ''src'' (Inr [File ''d.ts'' (Inr ''t'')])"
  let ?S = "example_settings\<lparr>includeDirectories := [''lib'']\<rparr>"
  have p: "''proj/src'' = join example_runtime ''./proj'' (name ?entry)"
    by code_simp
  have d: "isDirectory ?entry"
    by simp
  have e1: "\<not> isExcluded example_runtime example_settings ''proj/src''"
    by code_simp
  have i1: "includeDirectories example_settings = []"
    by code_simp
  have e2: "\<not> isExcluded example_runtime ?S ''proj/src''"
    by code_simp
  have "\<not> list_ex (str_includes ''proj/src'') (includeDirectories ?S)"
    by code_simp
  then have i2: "\<not> (includeDirectories ?S = [] \<or>
      (\<exists>inc \<in> set (includeDirectories ?S). \<exists>u v. ''proj/src'' = u @ inc @ v))"
    by (simp add: list_ex_iff str_includes_iff)
  have a: "Readdir ''proj/src'' \<in> set (fst (entryCallback example_runtime example_settings
      ''./proj'' ''/w/output.sick'' ?entry))"
    using directory_descent [OF p e1 d, of "''/w/output.sick''"] i1 by blast
  have "\<forall>b. entryCallback example_runtime (?S\<lparr>showSkipped := b\<rparr>) ''./proj''
      ''/w/output.sick'' ?entry = ([], None)"
    using directory_descent [OF p e2 d, of "''/w/output.sick''"] i2 by blast
  then have b: "entryCallback example_runtime (?S\<lparr>showSkipped := True\<rparr>) ''./proj''
      ''/w/output.sick'' ?entry = ([], None)"
    by blast
  from a b show ?thesis by simp
qed

lemma no_Excluded_record:
  "\<not> showExcluded S \<Longrightarrow>
     AppendFile p (SkipBlock rel ''Excluded'') \<notin> set (fst (traverseDirectoryRecursively R S d node out))"
  "\<not> showExcluded S \<Longrightarrow>
     AppendFile p (SkipBlock rel ''Excluded'') \<notin> set (fst (entryCallback R S d out entry))"
proof (induction R S d node out and R S d out entry
    rule: traverseDirectoryRecursively_entryCallback.induct)
  case (1 R S directoryPath n r outputFilePath)
  then show ?case by simp
next
  case (2 R S directoryPath n error outputFilePath)
  then show ?case by simp
next
  case (3 R S directoryPath n directoryEntries outputFilePath)
  then show ?case
    by (auto simp: promise_all_def split: option.splits)
next
  case (4 R S directoryPath outputFilePath entry)
  show ?case
  proof (cases "isExcluded R S (join R directoryPath (name entry))")
    case True
    with 4(2) show ?thesis by (simp add: callback_excluded)
  next
    case False
    show ?thesis
    proof (cases "isDirectory entry")
      case True
      with False 4 show ?thesis by (simp add: callback_directory)
    next
      case nd: False
      have "AppendFile p (SkipBlock rel ''Excluded'') \<notin>
          set (fst (logSkippedFile R (join R directoryPath (name entry)) outputFilePath
                 ''Skipped (non-matching extension)''))"
        using logSkippedFile_events [of R "join R directoryPath (name entry)" outputFilePath
            "''Skipped (non-matching extension)''"]
        by auto
      moreover have "AppendFile p (SkipBlock rel ''Excluded'') \<notin>
          set (fst (appendFileToOutput R (join R directoryPath (name entry)) entry outputFilePath))"
        using appendFileToOutput_events [of R "join R directoryPath (name entry)" entry outputFilePath]
        by auto
      ultimately show ?thesis using False nd by (simp add: callback_file)
    qed
  qed
qed

text \<open>
  C3. The callback of an excluded entry never reads a directory or a file and
  never appends a content block, whatever \<open>includeDirectories\<close> is. With
  \<open>showExcluded\<close> and an append that succeeds, its events are the append to the
  output file of the skip record with reason \<open>Excluded\<close> for the relative path of
  the entry, whose text is two newlines, the header, a newline, the reason in
  parentheses and a newline, and the line on the standard output. Without
  \<open>showExcluded\<close> it does nothing, and no traversal appends a skip record with
  reason \<open>Excluded\<close>.
\<close>
theorem excluded_entry:
  assumes "entryPath = join R directoryPath (name entry)"
      and "isExcluded R S entryPath"
      and "events = fst (entryCallback R S directoryPath out entry)"
  shows "(\<forall>q. Readdir q \<notin> set events) \<and> (\<forall>q. ReadFile q \<notin> set events)
       \<and> (\<forall>q rel content. AppendFile q (FileBlock rel content) \<notin> set events)
       \<and> (showExcluded S \<and>
            appendFile R out (render (SkipBlock (relative R (cwd R) entryPath) ''Excluded'')) = None
          \<longrightarrow> appended events = [SkipBlock (relative R (cwd R) entryPath) ''Excluded''] \<and>
              events =
                [AppendFile out (SkipBlock (relative R (cwd R) entryPath) ''Excluded''),
                 ConsoleLog (''Skipped file: '' @ relative R (cwd R) entryPath @
                             '' (Excluded)'')] \<and>
              (\<forall>content. content_after out events content =
                 content @ [CHR 0x0A, CHR 0x0A] @ ''--- File: '' @
                 relative R (cwd R) entryPath @ '' ---'' @ [CHR 0x0A] @ ''(Excluded)'' @
                 [CHR 0x0A]))
       \<and> (\<not> showExcluded S
          \<longrightarrow> events = [] \<and>
              (\<forall>d node q rel. AppendFile q (SkipBlock rel ''Excluded'')
                   \<notin> set (fst (traverseDirectoryRecursively R S d node out))))"
proof -
  have cb: "entryCallback R S directoryPath out entry =
      (if showExcluded S then logSkippedFile R entryPath out ''Excluded'' else ([], None))"
    using assms(1,2) callback_excluded [of R S directoryPath entry out] by simp
  have ev: "events = [] \<or> events =
      [AppendFile out (SkipBlock (relative R (cwd R) entryPath) ''Excluded''),
       ConsoleLog (''Skipped file: '' @ relative R (cwd R) entryPath @ '' ('' @ ''Excluded'' @ '')'')]"
    using cb assms(3) logSkippedFile_events [of R entryPath out "''Excluded''"] by auto
  have a: "(\<forall>q. Readdir q \<notin> set events) \<and> (\<forall>q. ReadFile q \<notin> set events)
       \<and> (\<forall>q rel content. AppendFile q (FileBlock rel content) \<notin> set events)"
    using ev by auto
  have b: "showExcluded S \<and>
            appendFile R out (render (SkipBlock (relative R (cwd R) entryPath) ''Excluded'')) = None
          \<longrightarrow> appended events = [SkipBlock (relative R (cwd R) entryPath) ''Excluded''] \<and>
              events =
                [AppendFile out (SkipBlock (relative R (cwd R) entryPath) ''Excluded''),
                 ConsoleLog (''Skipped file: '' @ relative R (cwd R) entryPath @
                             '' (Excluded)'')] \<and>
              (\<forall>content. content_after out events content =
                 content @ [CHR 0x0A, CHR 0x0A] @ ''--- File: '' @
                 relative R (cwd R) entryPath @ '' ---'' @ [CHR 0x0A] @ ''(Excluded)'' @
                 [CHR 0x0A])"
    using cb assms(3) logSkippedFile_ok [of R out entryPath "''Excluded''"]
    by (auto simp: content_after_def)
  have c: "\<not> showExcluded S \<longrightarrow> events = []"
    using cb assms(3) by simp
  have d: "\<not> showExcluded S \<longrightarrow>
              (\<forall>d node q rel. AppendFile q (SkipBlock rel ''Excluded'')
                   \<notin> set (fst (traverseDirectoryRecursively R S d node out)))"
    using no_Excluded_record(1) by blast
  from a b c d show ?thesis by blast
qed

theorem excluded_entry_witness:
  "appended (fst (entryCallback example_runtime example_settings ''./proj'' ''/w/output.sick''
       (Directory ''node_modules'' (Inr [File ''c.js'' (Inr ''z'')])))) =
     [SkipBlock ''proj/node_modules'' ''Excluded''] \<and>
   content_after ''/w/output.sick''
       (fst (entryCallback example_runtime example_settings ''./proj'' ''/w/output.sick''
               (Directory ''node_modules'' (Inr [File ''c.js'' (Inr ''z'')])))) [] =
     [CHR 0x0A, CHR 0x0A] @ ''--- File: proj/node_modules ---'' @ [CHR 0x0A] @ ''(Excluded)'' @
     [CHR 0x0A] \<and>
   fst (entryCallback example_runtime (example_settings\<lparr>showExcluded := False\<rparr>) ''./proj''
       ''/w/output.sick'' (Directory ''node_modules'' (Inr [File ''c.js'' (Inr ''z'')]))) = []"
proof -
  let ?entry = "Directory ''node_modules'' (Inr [File ''c.js'' (Inr ''z'')])"
  let ?S = "example_settings\<lparr>showExcluded := False\<rparr>"
  have p: "''proj/node_modules'' = join example_runtime ''./proj'' (name ?entry)"
    by code_simp
  have e1: "isExcluded example_runtime example_settings ''proj/node_modules''"
    by code_simp
  have e2: "isExcluded example_runtime ?S ''proj/node_modules''"
    by code_simp
  have s1: "showExcluded example_settings"
    by code_simp
  have s2: "\<not> showExcluded ?S"
    by simp
  have r: "relative example_runtime (cwd example_runtime) ''proj/node_modules'' =
      ''proj/node_modules''"
    by code_simp
  have ok: "appendFile example_runtime ''/w/output.sick''
      (render (SkipBlock ''proj/node_modules'' ''Excluded'')) = None"
    by code_simp
  have a: "appended (fst (entryCallback example_runtime example_settings ''./proj''
      ''/w/output.sick'' ?entry)) = [SkipBlock ''proj/node_modules'' ''Excluded'']"
    using excluded_entry [OF p e1 refl, of "''/w/output.sick''"] s1 r ok by simp
  have ok': "appendFile example_runtime ''/w/output.sick''
      (render (SkipBlock (relative example_runtime (cwd example_runtime) ''proj/node_modules'')
                 ''Excluded'')) = None"
    by code_simp
  have "\<forall>content. content_after ''/w/output.sick''
      (fst (entryCallback example_runtime example_settings ''./proj'' ''/w/output.sick''
              ?entry)) content =
      content @ [CHR 0x0A, CHR 0x0A] @ ''--- File: '' @
      relative example_runtime (cwd example_runtime) ''proj/node_modules'' @ '' ---'' @
      [CHR 0x0A] @ ''(Excluded)'' @ [CHR 0x0A]"
    using excluded_entry [OF p e1 refl, of "''/w/output.sick''"] s1 ok' by blast
  then have "content_after ''/w/output.sick''
      (fst (entryCallback example_runtime example_settings ''./proj'' ''/w/output.sick''
              ?entry)) [] =
      [] @ [CHR 0x0A, CHR 0x0A] @ ''--- File: '' @
      relative example_runtime (cwd example_runtime) ''proj/node_modules'' @ '' ---'' @
      [CHR 0x0A] @ ''(Excluded)'' @ [CHR 0x0A]"
    by (rule spec)
  then have t: "content_after ''/w/output.sick''
      (fst (entryCallback example_runtime example_settings ''./proj'' ''/w/output.sick''
              ?entry)) [] =
      [CHR 0x0A, CHR 0x0A] @ ''--- File: proj/node_modules ---'' @ [CHR 0x0A] @
      ''(Excluded)'' @ [CHR 0x0A]"
    using r by simp
  have b: "fst (entryCallback example_runtime ?S ''./proj'' ''/w/output.sick'' ?entry) = []"
    using excluded_entry [OF p e2 refl, of "''/w/output.sick''"] s2 by blast
  from a t b show ?thesis by (intro conjI)
qed

text \<open>
  C4. For a file that is not excluded and whose extension is not in
  \<open>includeExtensions\<close>: with \<open>showSkipped\<close> and an append that succeeds, the events
  are the append to the output file of the skip record with reason
  \<open>Skipped (non-matching extension)\<close> for the relative path of the file, whose
  text is two newlines, the header, a newline, the reason in parentheses and a
  newline, and the line on the standard output; without \<open>showSkipped\<close> the
  callback does nothing.
  In both cases the file is not read and no content block is appended.
\<close>
theorem non_matching_extension:
  assumes "entryPath = join R directoryPath (name entry)"
      and "\<not> isExcluded R S entryPath"
      and "\<not> isDirectory entry"
      and "extname R (name entry) \<notin> set (includeExtensions S)"
      and "events = fst (entryCallback R S directoryPath out entry)"
  shows "(showSkipped S \<and>
            appendFile R out
              (render (SkipBlock (relative R (cwd R) entryPath)
                         ''Skipped (non-matching extension)'')) = None
          \<longrightarrow> appended events =
                [SkipBlock (relative R (cwd R) entryPath) ''Skipped (non-matching extension)''] \<and>
              events =
                [AppendFile out
                   (SkipBlock (relative R (cwd R) entryPath) ''Skipped (non-matching extension)''),
                 ConsoleLog (''Skipped file: '' @ relative R (cwd R) entryPath @
                             '' (Skipped (non-matching extension))'')] \<and>
              (\<forall>content. content_after out events content =
                 content @ [CHR 0x0A, CHR 0x0A] @ ''--- File: '' @
                 relative R (cwd R) entryPath @ '' ---'' @ [CHR 0x0A] @
                 ''(Skipped (non-matching extension))'' @ [CHR 0x0A]))
       \<and> (\<not> showSkipped S \<longrightarrow> events = [])
       \<and> (\<forall>q. ReadFile q \<notin> set events)
       \<and> (\<forall>q rel content. AppendFile q (FileBlock rel content) \<notin> set events)"
proof -
  have cb: "entryCallback R S directoryPath out entry =
      (if showSkipped S
       then logSkippedFile R entryPath out ''Skipped (non-matching extension)''
       else ([], None))"
    using assms(1-4) callback_file [of R S directoryPath entry out] by simp
  have ev: "events = [] \<or> events =
      [AppendFile out (SkipBlock (relative R (cwd R) entryPath) ''Skipped (non-matching extension)''),
       ConsoleLog (''Skipped file: '' @ relative R (cwd R) entryPath @ '' ('' @
                   ''Skipped (non-matching extension)'' @ '')'')]"
    using cb assms(5)
      logSkippedFile_events [of R entryPath out "''Skipped (non-matching extension)''"]
    by auto
  have a: "(\<forall>q. ReadFile q \<notin> set events)
       \<and> (\<forall>q rel content. AppendFile q (FileBlock rel content) \<notin> set events)"
    using ev by auto
  have b: "showSkipped S \<and>
            appendFile R out
              (render (SkipBlock (relative R (cwd R) entryPath)
                         ''Skipped (non-matching extension)'')) = None
          \<longrightarrow> appended events =
                [SkipBlock (relative R (cwd R) entryPath) ''Skipped (non-matching extension)''] \<and>
              events =
                [AppendFile out
                   (SkipBlock (relative R (cwd R) entryPath) ''Skipped (non-matching extension)''),
                 ConsoleLog (''Skipped file: '' @ relative R (cwd R) entryPath @
                             '' (Skipped (non-matching extension))'')] \<and>
              (\<forall>content. content_after out events content =
                 content @ [CHR 0x0A, CHR 0x0A] @ ''--- File: '' @
                 relative R (cwd R) entryPath @ '' ---'' @ [CHR 0x0A] @
                 ''(Skipped (non-matching extension))'' @ [CHR 0x0A])"
    using cb assms(5)
      logSkippedFile_ok [of R out entryPath "''Skipped (non-matching extension)''"]
    by (auto simp: content_after_def)
  have c: "\<not> showSkipped S \<longrightarrow> events = []"
    using cb assms(5) by simp
  from a b c show ?thesis by blast
qed

theorem non_matching_extension_witness:
  "appended (fst (entryCallback example_runtime example_settings ''./proj'' ''/w/output.sick''
       (File ''b.txt'' (Inr ''y'')))) =
     [SkipBlock ''proj/b.txt'' ''Skipped (non-matching extension)''] \<and>
   content_after ''/w/output.sick''
       (fst (entryCallback example_runtime example_settings ''./proj'' ''/w/output.sick''
               (File ''b.txt'' (Inr ''y'')))) [] =
     [CHR 0x0A, CHR 0x0A] @ ''--- File: proj/b.txt ---'' @ [CHR 0x0A] @
     ''(Skipped (non-matching extension))'' @ [CHR 0x0A] \<and>
   fst (entryCallback example_runtime (example_settings\<lparr>showSkipped := False\<rparr>) ''./proj''
       ''/w/output.sick'' (File ''b.txt'' (Inr ''y''))) = []"
proof -
  let ?entry = "File ''b.txt'' (Inr ''y'')"
  let ?S = "example_settings\<lparr>showSkipped := False\<rparr>"
  have p: "''proj/b.txt'' = join example_runtime ''./proj'' (name ?entry)"
    by code_simp
  have e1: "\<not> isExcluded example_runtime example_settings ''proj/b.txt''"
    by code_simp
  have e2: "\<not> isExcluded example_runtime ?S ''proj/b.txt''"
    by code_simp
  have d: "\<not> isDirectory ?entry"
    by simp
  have x1: "extname example_runtime (name ?entry) \<notin> set (includeExtensions example_settings)"
    by code_simp
  have x2: "extname example_runtime (name ?entry) \<notin> set (includeExtensions ?S)"
    by code_simp
  have s1: "showSkipped example_settings"
    by code_simp
  have s2: "\<not> showSkipped ?S"
    by simp
  have r: "relative example_runtime (cwd example_runtime) ''proj/b.txt'' = ''proj/b.txt''"
    by code_simp
  have ok: "appendFile example_runtime ''/w/output.sick''
      (render (SkipBlock ''proj/b.txt'' ''Skipped (non-matching extension)'')) = None"
    by code_simp
  have a: "appended (fst (entryCallback example_runtime example_settings ''./proj''
      ''/w/output.sick'' ?entry)) = [SkipBlock ''proj/b.txt'' ''Skipped (non-matching extension)'']"
    using non_matching_extension [OF p e1 d x1 refl, of "''/w/output.sick''"] s1 r ok by simp
  have ok': "appendFile example_runtime ''/w/output.sick''
      (render (SkipBlock (relative example_runtime (cwd example_runtime) ''proj/b.txt'')
                 ''Skipped (non-matching extension)'')) = None"
    by code_simp
  have "\<forall>content. content_after ''/w/output.sick''
      (fst (entryCallback example_runtime example_settings ''./proj'' ''/w/output.sick''
              ?entry)) content =
      content @ [CHR 0x0A, CHR 0x0A] @ ''--- File: '' @
      relative example_runtime (cwd example_runtime) ''proj/b.txt'' @ '' ---'' @
      [CHR 0x0A] @ ''(Skipped (non-matching extension))'' @ [CHR 0x0A]"
    using non_matching_extension [OF p e1 d x1 refl, of "''/w/output.sick''"] s1 ok' by blast
  then have "content_after ''/w/output.sick''
      (fst (entryCallback example_runtime example_settings ''./proj'' ''/w/output.sick''
              ?entry)) [] =
      [] @ [CHR 0x0A, CHR 0x0A] @ ''--- File: '' @
      relative example_runtime (cwd example_runtime) ''proj/b.txt'' @ '' ---'' @
      [CHR 0x0A] @ ''(Skipped (non-matching extension))'' @ [CHR 0x0A]"
    by (rule spec)
  then have t: "content_after ''/w/output.sick''
      (fst (entryCallback example_runtime example_settings ''./proj'' ''/w/output.sick''
              ?entry)) [] =
      [CHR 0x0A, CHR 0x0A] @ ''--- File: proj/b.txt ---'' @ [CHR 0x0A] @
      ''(Skipped (non-matching extension))'' @ [CHR 0x0A]"
    using r by simp
  have b: "fst (entryCallback example_runtime ?S ''./proj'' ''/w/output.sick'' ?entry) = []"
    using non_matching_extension [OF p e2 d x2 refl, of "''/w/output.sick''"] s2 by blast
  from a t b show ?thesis by (intro conjI)
qed

text \<open>
  C5. When the file can be read and the append succeeds, \<open>appendFileToOutput\<close>
  reads the file and appends one block, whose text is two newlines, the header
  with the path relative to the working directory, two newlines, the content as
  read, and a newline. The callback of a file that is not excluded and has an
  extension of \<open>includeExtensions\<close> is this call.
\<close>
theorem content_block:
  assumes "fs_readFile node = Inr fileContent"
      and "relativePath = relative R (cwd R) sourceFilePath"
      and "appendFile R out (render (FileBlock relativePath fileContent)) = None"
  shows "appendFileToOutput R sourceFilePath node out =
           ([ReadFile sourceFilePath, AppendFile out (FileBlock relativePath fileContent)], None)
       \<and> content_after out (fst (appendFileToOutput R sourceFilePath node out)) content =
           content @ [CHR 0x0A, CHR 0x0A] @ ''--- File: '' @ relativePath @ '' ---'' @
             [CHR 0x0A, CHR 0x0A] @ fileContent @ [CHR 0x0A]
       \<and> (sourceFilePath = join R directoryPath (name node) \<and>
          \<not> isExcluded R S sourceFilePath \<and> \<not> isDirectory node \<and>
          extname R (name node) \<in> set (includeExtensions S)
          \<longrightarrow> entryCallback R S directoryPath out node =
                appendFileToOutput R sourceFilePath node out)"
proof -
  have a: "appendFileToOutput R sourceFilePath node out =
           ([ReadFile sourceFilePath, AppendFile out (FileBlock relativePath fileContent)], None)"
    using assms by (simp add: appendFileToOutput_def Let_def)
  have b: "content_after out [ReadFile sourceFilePath,
              AppendFile out (FileBlock relativePath fileContent)] content =
           content @ [CHR 0x0A, CHR 0x0A] @ ''--- File: '' @ relativePath @ '' ---'' @
             [CHR 0x0A, CHR 0x0A] @ fileContent @ [CHR 0x0A]"
    by (simp add: content_after_def)
  have c: "sourceFilePath = join R directoryPath (name node) \<and>
          \<not> isExcluded R S sourceFilePath \<and> \<not> isDirectory node \<and>
          extname R (name node) \<in> set (includeExtensions S)
          \<longrightarrow> entryCallback R S directoryPath out node =
                appendFileToOutput R sourceFilePath node out"
    using callback_file [of R S directoryPath node out] by auto
  from a b c show ?thesis by simp
qed

theorem content_block_witness:
  "entryCallback example_runtime example_settings ''./proj'' ''/w/output.sick''
       (File ''a.js'' (Inr ''x'')) =
     ([ReadFile ''proj/a.js'', AppendFile ''/w/output.sick'' (FileBlock ''proj/a.js'' ''x'')], None) \<and>
   content_after ''/w/output.sick''
       (fst (appendFileToOutput example_runtime ''proj/a.js'' (File ''a.js'' (Inr ''x''))
               ''/w/output.sick'')) [] =
     [CHR 0x0A, CHR 0x0A] @ ''--- File: proj/a.js ---'' @ [CHR 0x0A, CHR 0x0A] @ ''x'' @ [CHR 0x0A]"
proof -
  let ?node = "File ''a.js'' (Inr ''x'')"
  have f: "fs_readFile ?node = Inr ''x''"
    by simp
  have r: "''proj/a.js'' = relative example_runtime (cwd example_runtime) ''proj/a.js''"
    by code_simp
  have ok: "appendFile example_runtime ''/w/output.sick''
      (render (FileBlock ''proj/a.js'' ''x'')) = None"
    by code_simp
  have p: "join example_runtime ''./proj'' (name ?node) = ''proj/a.js''"
    by code_simp
  have e: "\<not> isExcluded example_runtime example_settings ''proj/a.js''"
    by code_simp
  have x: "extname example_runtime (name ?node) \<in> set (includeExtensions example_settings)"
    by code_simp
  have d: "\<not> isDirectory ?node"
    by simp
  note t = content_block [where content = "[]" and directoryPath = "''./proj''"
      and S = example_settings, OF f r ok]
  from t p e x d show ?thesis by (simp add: content_after_def)
qed

lemma appended_append: "appended (xs @ ys) = appended xs @ appended ys"
  by (induction xs rule: appended.induct) simp_all

lemma appended_concat: "appended (concat xss) = concat (map appended xss)"
  by (induction xss) (simp_all add: appended_append)

lemma length_concat_le:
  "(\<And>x. x \<in> set xs \<Longrightarrow> length (f x) \<le> g x) \<Longrightarrow>
   length (concat (map f xs)) \<le> sum_list (map g xs)"
  by (induction xs) (auto simp: add_mono)

lemma traverse_event_kinds:
  "ev \<in> set (fst (traverseDirectoryRecursively R S d node out)) \<Longrightarrow>
     (\<exists>q. ev = Readdir q) \<or> (\<exists>q. ev = ReadFile q) \<or> (\<exists>b. ev = AppendFile out b) \<or>
     (\<exists>m. ev = ConsoleLog m) \<or> (\<exists>vs. ev = ConsoleError vs)"
  "ev \<in> set (fst (entryCallback R S d out entry)) \<Longrightarrow>
     (\<exists>q. ev = Readdir q) \<or> (\<exists>q. ev = ReadFile q) \<or> (\<exists>b. ev = AppendFile out b) \<or>
     (\<exists>m. ev = ConsoleLog m) \<or> (\<exists>vs. ev = ConsoleError vs)"
proof (induction R S d node out and R S d out entry
    rule: traverseDirectoryRecursively_entryCallback.induct)
  case (1 R S directoryPath n r outputFilePath)
  then show ?case by auto
next
  case (2 R S directoryPath n error outputFilePath)
  then show ?case by auto
next
  case (3 R S directoryPath n directoryEntries outputFilePath)
  from 3(2) have "ev = Readdir directoryPath \<or> (\<exists>vs. ev = ConsoleError vs) \<or>
      (\<exists>entry \<in> set directoryEntries.
         ev \<in> set (fst (entryCallback R S directoryPath outputFilePath entry)))"
    by (auto simp: promise_all_def split: option.splits)
  with 3(1) show ?case by blast
next
  case (4 R S directoryPath outputFilePath entry)
  let ?p = "join R directoryPath (name entry)"
  show ?case
  proof (cases "isExcluded R S ?p")
    case True
    with 4(2) logSkippedFile_events [of R ?p outputFilePath "''Excluded''"]
    show ?thesis by (auto simp: callback_excluded split: if_splits)
  next
    case False
    show ?thesis
    proof (cases "isDirectory entry")
      case True
      with False 4 show ?thesis by (auto simp: callback_directory split: if_splits)
    next
      case nd: False
      with False 4(2)
        logSkippedFile_events [of R ?p outputFilePath "''Skipped (non-matching extension)''"]
        appendFileToOutput_events [of R ?p entry outputFilePath]
      show ?thesis by (auto simp: callback_file split: if_splits)
    qed
  qed
qed

lemma effect_prefix:
  assumes "\<forall>p t. ev \<noteq> WriteFile p t"
  shows "prefix c (effect path ev c)"
  using assms by (cases ev) simp_all

lemma block_counts:
  "length (appended (fst (traverseDirectoryRecursively R S d node out))) \<le> entryCount node"
  "length (appended (fst (entryCallback R S d out entry))) \<le> Suc (entryCount entry)"
proof (induction R S d node out and R S d out entry
    rule: traverseDirectoryRecursively_entryCallback.induct)
  case (1 R S directoryPath n r outputFilePath)
  then show ?case by simp
next
  case (2 R S directoryPath n error outputFilePath)
  then show ?case by simp
next
  case (3 R S directoryPath n directoryEntries outputFilePath)
  have "length (concat (map (\<lambda>entry. appended (fst (entryCallback R S directoryPath
            outputFilePath entry))) directoryEntries))
      \<le> sum_list (map (\<lambda>entry. Suc (entryCount entry)) directoryEntries)"
    using 3 by (rule length_concat_le)
  then show ?case
    by (simp add: promise_all_def appended_append appended_concat comp_def
        split: option.splits)
next
  case (4 R S directoryPath outputFilePath entry)
  let ?p = "join R directoryPath (name entry)"
  show ?case
  proof (cases "isExcluded R S ?p")
    case True
    with logSkippedFile_events [of R ?p outputFilePath "''Excluded''"]
    show ?thesis by (auto simp: callback_excluded)
  next
    case False
    show ?thesis
    proof (cases "isDirectory entry")
      case True
      with False 4 show ?thesis by (auto simp: callback_directory le_SucI)
    next
      case nd: False
      with False
        logSkippedFile_events [of R ?p outputFilePath "''Skipped (non-matching extension)''"]
        appendFileToOutput_events [of R ?p entry outputFilePath]
      show ?thesis by (auto simp: callback_file)
    qed
  qed
qed

lemma file_block_counts:
  "length (filter isFileBlock (appended (fst (traverseDirectoryRecursively R S d node out))))
     \<le> fileCount node"
  "length (filter isFileBlock (appended (fst (entryCallback R S d out entry))))
     \<le> (if isDirectory entry then 0 else 1) + fileCount entry"
proof (induction R S d node out and R S d out entry
    rule: traverseDirectoryRecursively_entryCallback.induct)
  case (1 R S directoryPath n r outputFilePath)
  then show ?case by simp
next
  case (2 R S directoryPath n error outputFilePath)
  then show ?case by simp
next
  case (3 R S directoryPath n directoryEntries outputFilePath)
  have "length (concat (map (\<lambda>entry. filter isFileBlock (appended (fst (entryCallback R S
            directoryPath outputFilePath entry)))) directoryEntries))
      \<le> sum_list (map (\<lambda>entry. (if isDirectory entry then 0 else 1) + fileCount entry)
            directoryEntries)"
    using 3 by (rule length_concat_le)
  then show ?case
    by (simp add: promise_all_def appended_append appended_concat comp_def filter_concat
        split: option.splits)
next
  case (4 R S directoryPath outputFilePath entry)
  let ?p = "join R directoryPath (name entry)"
  show ?case
  proof (cases "isExcluded R S ?p")
    case True
    with logSkippedFile_events [of R ?p outputFilePath "''Excluded''"]
    show ?thesis by (auto simp: callback_excluded)
  next
    case False
    show ?thesis
    proof (cases "isDirectory entry")
      case True
      with False 4 show ?thesis by (auto simp: callback_directory)
    next
      case nd: False
      with False
        logSkippedFile_events [of R ?p outputFilePath "''Skipped (non-matching extension)''"]
        appendFileToOutput_events [of R ?p entry outputFilePath]
      show ?thesis by (auto simp: callback_file)
    qed
  qed
qed

lemma traverse_result:
  obtains events where "traverseDirectoryRecursively R S d node out = (events, None)"
  using traverse_resolves [of R S d node out] by (cases "traverseDirectoryRecursively R S d node out") simp

text \<open>
  C6. \<open>traverseDirectoryRecursively\<close> never rejects. A directory whose entries
  cannot be read yields its \<open>Readdir\<close> and one line on the error stream, nothing
  else; as an entry of its parent its callback resolves with these two events.
  The events of a directory that can be read are its \<open>Readdir\<close>, then the events of
  the callback of every entry, whatever the other entries did, then at most one
  line on the error stream.
\<close>
theorem readdir_failure_is_local:
  "snd (traverseDirectoryRecursively R S d node out) = None
   \<and> traverseDirectoryRecursively R S d (Directory n (Inl error)) out =
       ([Readdir d,
         ConsoleError [Str (''Error traversing directory '' @ d @ '':''), Err error]], None)
   \<and> (\<exists>tail. fst (traverseDirectoryRecursively R S d (Directory n (Inr entries)) out) =
          Readdir d # concat (map (\<lambda>entry. fst (entryCallback R S d out entry)) entries) @ tail
        \<and> (tail = [] \<or> (\<exists>vs. tail = [ConsoleError vs])))
   \<and> (\<not> isExcluded R S (join R d m) \<and>
      (includeDirectories S = [] \<or>
       list_ex (str_includes (join R d m)) (includeDirectories S))
      \<longrightarrow> entryCallback R S d out (Directory m (Inl error)) =
            ([Readdir (join R d m),
              ConsoleError [Str (''Error traversing directory '' @ join R d m @ '':''),
                            Err error]], None))"
proof -
  have a: "snd (traverseDirectoryRecursively R S d node out) = None"
    by (rule traverse_resolves)
  have b: "traverseDirectoryRecursively R S d (Directory n (Inl error)) out =
       ([Readdir d,
         ConsoleError [Str (''Error traversing directory '' @ d @ '':''), Err error]], None)"
    by simp
  have c: "\<exists>tail. fst (traverseDirectoryRecursively R S d (Directory n (Inr entries)) out) =
          Readdir d # concat (map (\<lambda>entry. fst (entryCallback R S d out entry)) entries) @ tail
        \<and> (tail = [] \<or> (\<exists>vs. tail = [ConsoleError vs]))"
    by (rule traverse_listing)
  have d: "\<not> isExcluded R S (join R d m) \<and>
      (includeDirectories S = [] \<or>
       list_ex (str_includes (join R d m)) (includeDirectories S))
      \<longrightarrow> entryCallback R S d out (Directory m (Inl error)) =
            ([Readdir (join R d m),
              ConsoleError [Str (''Error traversing directory '' @ join R d m @ '':''),
                            Err error]], None)"
    using callback_directory [of R S d "Directory m (Inl error)" out] by auto
  from a b c d show ?thesis by blast
qed

theorem readdir_failure_is_local_witness:
  "entryCallback example_runtime example_settings ''proj/src'' ''/w/output.sick''
       (Directory ''locked'' (Inl (Error ''EACCES: permission denied, scandir''))) =
     ([Readdir ''proj/src/locked'',
       ConsoleError [Str ''Error traversing directory proj/src/locked:'',
                     Err (Error ''EACCES: permission denied, scandir'')]], None)"
proof -
  have p: "join example_runtime ''proj/src'' ''locked'' = ''proj/src/locked''"
    by code_simp
  have e: "\<not> isExcluded example_runtime example_settings ''proj/src/locked''"
    by code_simp
  have i: "includeDirectories example_settings = []"
    by code_simp
  from readdir_failure_is_local [of example_runtime example_settings "''proj/src''" _
      "''/w/output.sick''" _ _ _ "''locked''"] p e i
  show ?thesis by simp
qed

text \<open>
  C7. When the scan root cannot be accessed, both versions print the error
  message with the path, end with exit code 1, make no other call and leave
  every file as it was. When the root can be accessed and the output file can be
  created, both end with exit code 0.
\<close>
theorem missing_scan_root:
  "run R S None =
     ([Access (inputDirectory S),
       ConsoleError [Str (''Error: Directory '' @ [CHR 0x22] @ inputDirectory S @ [CHR 0x22] @
                          '' does not exist or is inaccessible.'')]], 1)
   \<and> run_part_000 R S None =
     ([Access (resolve R (inputDirectory S)),
       ConsoleError [Str (''Error: Directory '' @ [CHR 0x22] @ resolve R (inputDirectory S) @
                          [CHR 0x22] @ '' does not exist or is inaccessible.'')]], 1)
   \<and> content_after path (fst (run R S None)) content = content
   \<and> content_after path (fst (run_part_000 R S None)) content = content
   \<and> (writeFile R (join R (cwd R) (outputFile S)) [] = None
      \<longrightarrow> snd (run R S (Some node)) = 0 \<and> snd (run_part_000 R S (Some node)) = 0)"
proof -
  have a: "run R S None =
     ([Access (inputDirectory S),
       ConsoleError [Str (''Error: Directory '' @ [CHR 0x22] @ inputDirectory S @ [CHR 0x22] @
                          '' does not exist or is inaccessible.'')]], 1)"
    by (simp add: run_def main_def)
  have b: "run_part_000 R S None =
     ([Access (resolve R (inputDirectory S)),
       ConsoleError [Str (''Error: Directory '' @ [CHR 0x22] @ resolve R (inputDirectory S) @
                          [CHR 0x22] @ '' does not exist or is inaccessible.'')]], 1)"
    by (simp add: run_part_000_def main_part_000_def Let_def)
  have c: "content_after path (fst (run R S None)) content = content"
    by (simp add: a content_after_def)
  have d: "content_after path (fst (run_part_000 R S None)) content = content"
    by (simp add: b content_after_def)
  obtain ev1 where t1: "traverseDirectoryRecursively R S (inputDirectory S) node
      (join R (cwd R) (outputFile S)) = (ev1, None)"
    by (rule traverse_result)
  obtain ev2 where t2: "traverseDirectoryRecursively R S (resolve R (inputDirectory S)) node
      (join R (cwd R) (outputFile S)) = (ev2, None)"
    by (rule traverse_result)
  have e: "snd (run R S (Some node)) = 0"
    if "writeFile R (join R (cwd R) (outputFile S)) [] = None"
    using that t1 by (simp add: run_def main_def Let_def)
  have f: "snd (run_part_000 R S (Some node)) = 0"
    if "writeFile R (join R (cwd R) (outputFile S)) [] = None"
    using that t2 by (simp add: run_part_000_def main_part_000_def Let_def)
  from a b c d e f show ?thesis by blast
qed

theorem missing_scan_root_witness:
  "snd (run example_runtime example_settings None) = 1 \<and>
   snd (run example_runtime example_settings (Some example_tree)) = 0 \<and>
   snd (run_part_000 example_runtime example_settings (Some example_tree)) = 0"
proof -
  have w: "writeFile example_runtime
      (join example_runtime (cwd example_runtime) (outputFile example_settings)) [] = None"
    by code_simp
  from missing_scan_root [of example_runtime example_settings _ _ example_tree] w
  show ?thesis by simp
qed

lemma content_after_snoc:
  "content_after path (xs @ [ev]) c = effect path ev (content_after path xs c)"
  by (simp add: content_after_def)

lemma schedule_step:
  assumes "\<forall>ev \<in> set rest. \<forall>p t. ev \<noteq> WriteFile p t"
      and "mset rest' = mset rest"
      and "rest' = xs @ ev # ys"
  shows "prefix (content_after path xs c) (content_after path (xs @ [ev]) c)"
proof -
  have "ev \<in> set rest'"
    using assms(3) by simp
  then have "ev \<in> set rest"
    using assms(2) mset_eq_setD by blast
  with assms(1) have "\<forall>p t. ev \<noteq> WriteFile p t"
    by blast
  then show ?thesis
    by (simp add: content_after_snoc effect_prefix)
qed

lemma traversal_steps:
  assumes "rest = ConsoleLog m # fst (traverseDirectoryRecursively R S d node out) @ tail"
      and "tail = [] \<or> (\<exists>m'. tail = [ConsoleLog m'])"
  shows "(\<forall>ev \<in> set rest. (\<exists>b. ev = AppendFile out b) \<or> (\<forall>c. effect out ev c = c))
       \<and> (\<forall>rest' xs ev ys c. mset rest' = mset rest \<and> rest' = xs @ ev # ys
            \<longrightarrow> prefix (content_after out xs c) (content_after out (xs @ [ev]) c))"
proof -
  have kinds: "(\<exists>q. ev = Readdir q) \<or> (\<exists>q. ev = ReadFile q) \<or> (\<exists>b. ev = AppendFile out b) \<or>
     (\<exists>m. ev = ConsoleLog m) \<or> (\<exists>vs. ev = ConsoleError vs)" if "ev \<in> set rest" for ev
    using that assms traverse_event_kinds(1) [of ev R S d node out] by auto
  have a: "\<forall>ev \<in> set rest. (\<exists>b. ev = AppendFile out b) \<or> (\<forall>c. effect out ev c = c)"
  proof
    fix ev assume "ev \<in> set rest"
    from kinds [OF this] show "(\<exists>b. ev = AppendFile out b) \<or> (\<forall>c. effect out ev c = c)"
      by auto
  qed
  have nw: "\<forall>ev \<in> set rest. \<forall>p t. ev \<noteq> WriteFile p t"
  proof
    fix ev assume "ev \<in> set rest"
    from kinds [OF this] show "\<forall>p t. ev \<noteq> WriteFile p t"
      by auto
  qed
  have b: "\<forall>rest' xs ev ys c. mset rest' = mset rest \<and> rest' = xs @ ev # ys
            \<longrightarrow> prefix (content_after out xs c) (content_after out (xs @ [ev]) c)"
    using schedule_step [OF nw] by blast
  from a b show ?thesis by blast
qed

text \<open>
  C8. A run of \<open>main\<close> that reaches the traversal first writes the empty text to
  the output file. Every later event either appends a block to the output file
  or leaves it as it was, and in every order in which the later events may
  happen, the content before an event is a prefix of the content after it.
\<close>
theorem output_grows:
  assumes "outputFilePath = join R (cwd R) (outputFile S)"
      and "writeFile R outputFilePath [] = None"
  shows "\<exists>rest. fst (main R S (Some node)) =
            Access (inputDirectory S) # WriteFile outputFilePath [] # rest
         \<and> content_after outputFilePath
             [Access (inputDirectory S), WriteFile outputFilePath []] before = []
         \<and> (\<forall>ev \<in> set rest.
               (\<exists>b. ev = AppendFile outputFilePath b) \<or> (\<forall>c. effect outputFilePath ev c = c))
         \<and> (\<forall>rest' xs ev ys c. mset rest' = mset rest \<and> rest' = xs @ ev # ys
              \<longrightarrow> prefix (content_after outputFilePath xs c)
                         (content_after outputFilePath (xs @ [ev]) c))"
proof -
  let ?t = "traverseDirectoryRecursively R S (inputDirectory S) node outputFilePath"
  let ?rest = "ConsoleLog (''Traversing directory: '' @ inputDirectory S) # fst ?t @
      [ConsoleLog (''Done. All file contents written to: '' @ outputFilePath)]"
  obtain events where t: "?t = (events, None)"
    by (rule traverse_result)
  have m: "fst (main R S (Some node)) =
      Access (inputDirectory S) # WriteFile outputFilePath [] # ?rest"
    using assms t by (simp add: main_def Let_def)
  have c: "content_after outputFilePath
             [Access (inputDirectory S), WriteFile outputFilePath []] before = []"
    by (simp add: content_after_def)
  have "?rest = ConsoleLog (''Traversing directory: '' @ inputDirectory S) # fst ?t @
      [ConsoleLog (''Done. All file contents written to: '' @ outputFilePath)]"
    by simp
  from traversal_steps [OF this] m c show ?thesis by blast
qed

theorem output_grows_witness:
  "prefix
     (content_after ''/w/output.sick''
        [ConsoleLog ''Done. All file contents written to: /w/output.sick'',
         ConsoleError [Str ''Error traversing directory proj/src/locked:'',
                       Err (Error ''EACCES: permission denied, scandir'')],
         Readdir ''proj/src/locked''] [])
     (content_after ''/w/output.sick''
        ([ConsoleLog ''Done. All file contents written to: /w/output.sick'',
          ConsoleError [Str ''Error traversing directory proj/src/locked:'',
                        Err (Error ''EACCES: permission denied, scandir'')],
          Readdir ''proj/src/locked''] @
         [AppendFile ''/w/output.sick'' (FileBlock ''proj/src/d.ts'' ''t'')]) [])"
proof -
  let ?rest = "[ConsoleLog ''Traversing directory: ./proj'', Readdir ''./proj'',
     ReadFile ''proj/a.js'',
     AppendFile ''/w/output.sick'' (FileBlock ''proj/a.js'' ''x''),
     AppendFile ''/w/output.sick''
       (SkipBlock ''proj/b.txt'' ''Skipped (non-matching extension)''),
     ConsoleLog ''Skipped file: proj/b.txt (Skipped (non-matching extension))'',
     AppendFile ''/w/output.sick'' (SkipBlock ''proj/node_modules'' ''Excluded''),
     ConsoleLog ''Skipped file: proj/node_modules (Excluded)'',
     Readdir ''proj/src'', ReadFile ''proj/src/d.ts'',
     AppendFile ''/w/output.sick'' (FileBlock ''proj/src/d.ts'' ''t''),
     Readdir ''proj/src/locked'',
     ConsoleError [Str ''Error traversing directory proj/src/locked:'',
                   Err (Error ''EACCES: permission denied, scandir'')],
     ConsoleLog ''Done. All file contents written to: /w/output.sick'']"
  have o: "''/w/output.sick'' =
      join example_runtime (cwd example_runtime) (outputFile example_settings)"
    by code_simp
  have w: "writeFile example_runtime ''/w/output.sick'' [] = None"
    by code_simp
  have m: "fst (main example_runtime example_settings (Some example_tree)) =
      Access ''./proj'' # WriteFile ''/w/output.sick'' [] # ?rest"
    by code_simp
  from output_grows [OF o w, of example_tree "[]"]
  obtain rest where all: "fst (main example_runtime example_settings (Some example_tree)) =
        Access (inputDirectory example_settings) # WriteFile ''/w/output.sick'' [] # rest
      \<and> content_after ''/w/output.sick''
          [Access (inputDirectory example_settings), WriteFile ''/w/output.sick'' []] [] = []
      \<and> (\<forall>ev \<in> set rest.
            (\<exists>b. ev = AppendFile ''/w/output.sick'' b) \<or>
            (\<forall>c. effect ''/w/output.sick'' ev c = c))
      \<and> (\<forall>rest' xs ev ys c. mset rest' = mset rest \<and> rest' = xs @ ev # ys
        \<longrightarrow> prefix (content_after ''/w/output.sick'' xs c)
                   (content_after ''/w/output.sick'' (xs @ [ev]) c))" ..
  note r = all [THEN conjunct1]
  note mono = all [THEN conjunct2, THEN conjunct2, THEN conjunct2]
  have "Access (inputDirectory example_settings) # WriteFile ''/w/output.sick'' [] # rest =
      Access ''./proj'' # WriteFile ''/w/output.sick'' [] # ?rest"
    using r m by (rule trans [OF sym])
  then have rest: "rest = ?rest"
    by (simp only: list.inject)
  let ?xs = "[ConsoleLog ''Done. All file contents written to: /w/output.sick'',
       ConsoleError [Str ''Error traversing directory proj/src/locked:'',
                     Err (Error ''EACCES: permission denied, scandir'')],
       Readdir ''proj/src/locked'']"
  let ?ev = "AppendFile ''/w/output.sick'' (FileBlock ''proj/src/d.ts'' ''t'')"
  let ?ys = "[ReadFile ''proj/src/d.ts'', Readdir ''proj/src'',
       ConsoleLog ''Skipped file: proj/node_modules (Excluded)'',
       AppendFile ''/w/output.sick'' (SkipBlock ''proj/node_modules'' ''Excluded''),
       ConsoleLog ''Skipped file: proj/b.txt (Skipped (non-matching extension))'',
       AppendFile ''/w/output.sick''
         (SkipBlock ''proj/b.txt'' ''Skipped (non-matching extension)''),
       AppendFile ''/w/output.sick'' (FileBlock ''proj/a.js'' ''x''),
       ReadFile ''proj/a.js'', Readdir ''./proj'',
       ConsoleLog ''Traversing directory: ./proj'']"
  have p: "mset (rev ?rest) = mset rest"
    unfolding rest by (rule mset_rev)
  have s: "rev ?rest = ?xs @ ?ev # ?ys"
    by simp
  from p s have "mset (rev ?rest) = mset rest \<and> rev ?rest = ?xs @ ?ev # ?ys"
    by (rule conjI)
  then show ?thesis
    by (rule mono [rule_format, of "rev ?rest" ?xs ?ev ?ys "[]"])
qed

text \<open>
  C10. The callback of a file appends at most one block. The callback of a
  directory is either the traversal of the directory, or it appends at most one
  block, no content block, and reads nothing. Over a whole traversal the blocks
  appended are at most as many as the entries below the root, and the content
  blocks at most as many as the files.
\<close>
theorem one_block_per_entry:
  assumes "events = fst (entryCallback R S directoryPath out entry)"
  shows "(\<not> isDirectory entry \<longrightarrow> length (appended events) \<le> 1)
       \<and> (isDirectory entry \<longrightarrow>
            entryCallback R S directoryPath out entry =
              traverseDirectoryRecursively R S (join R directoryPath (name entry)) entry out
            \<or> length (appended events) \<le> 1 \<and> filter isFileBlock (appended events) = [] \<and>
              (\<forall>q. Readdir q \<notin> set events) \<and> (\<forall>q. ReadFile q \<notin> set events))
       \<and> length (appended (fst (traverseDirectoryRecursively R S d node out))) \<le> entryCount node
       \<and> length (filter isFileBlock
                    (appended (fst (traverseDirectoryRecursively R S d node out))))
            \<le> fileCount node"
proof -
  let ?p = "join R directoryPath (name entry)"
  have skip: "length (appended (fst (logSkippedFile R ?p out reason))) \<le> 1
      \<and> filter isFileBlock (appended (fst (logSkippedFile R ?p out reason))) = []
      \<and> (\<forall>q. Readdir q \<notin> set (fst (logSkippedFile R ?p out reason)))
      \<and> (\<forall>q. ReadFile q \<notin> set (fst (logSkippedFile R ?p out reason)))" for reason
    using logSkippedFile_events [of R ?p out reason] by auto
  have a: "length (appended events) \<le> 1" if "\<not> isDirectory entry"
  proof (cases "isExcluded R S ?p")
    case True
    with assms skip [of "''Excluded''"] show ?thesis
      by (auto simp: callback_excluded)
  next
    case False
    with that assms skip [of "''Skipped (non-matching extension)''"]
      appendFileToOutput_events [of R ?p entry out]
    show ?thesis
      by (auto simp: callback_file)
  qed
  have b: "entryCallback R S directoryPath out entry =
              traverseDirectoryRecursively R S ?p entry out
            \<or> length (appended events) \<le> 1 \<and> filter isFileBlock (appended events) = [] \<and>
              (\<forall>q. Readdir q \<notin> set events) \<and> (\<forall>q. ReadFile q \<notin> set events)"
    if "isDirectory entry"
  proof (cases "isExcluded R S ?p")
    case True
    with assms skip [of "''Excluded''"] show ?thesis
      by (auto simp: callback_excluded)
  next
    case False
    with that assms show ?thesis
      by (auto simp: callback_directory)
  qed
  from a b block_counts(1) [of R S d node out] file_block_counts(1) [of R S d node out]
  show ?thesis by simp
qed

theorem one_block_per_entry_witness:
  "length (appended (fst (entryCallback example_runtime example_settings ''./proj''
       ''/w/output.sick'' (File ''a.js'' (Inr ''x''))))) \<le> 1 \<and>
   length (appended (fst (traverseDirectoryRecursively example_runtime example_settings
       ''./proj'' example_tree ''/w/output.sick''))) \<le> 7 \<and>
   length (filter isFileBlock (appended (fst (traverseDirectoryRecursively example_runtime
       example_settings ''./proj'' example_tree ''/w/output.sick'')))) \<le> 4"
proof -
  have d: "\<not> isDirectory (File ''a.js'' (Inr ''x''))"
    by simp
  have n: "entryCount example_tree = 7"
    by code_simp
  have f: "fileCount example_tree = 4"
    by code_simp
  from one_block_per_entry [where R = example_runtime and S = example_settings
      and directoryPath = "''./proj''" and out = "''/w/output.sick''"
      and entry = "File ''a.js'' (Inr ''x'')" and d = "''./proj''" and node = example_tree,
      OF refl] d n f
  show ?thesis by simp
qed
























lemma isAbsolute_Cons: "isAbsolute (c # s) = (c = CHR ''/'')"
  by (simp add: isAbsolute_def)

lemma joinSlash_snoc: "xs \<noteq> [] \<Longrightarrow> joinSlash (xs @ [n]) = joinSlash xs @ CHR ''/'' # n"
  by (induction xs rule: joinSlash.induct) simp_all




lemma segment_slash_free: "segment a x \<Longrightarrow> CHR ''/'' \<notin> set x"
  by (simp add: segment_def)
















end
